theory Spec2Isabelle
  imports Main "HOL-Library.Sublist" "HOL-Library.Char_ord"
begin

section \<open>Python strings and characters\<close>

text \<open>
  The hook works on Python \<open>str\<close> values. They are modelled as \<^typ>\<open>string\<close>, so a
  character is one of the 256 code points below U+0100. The character classes below are
  those of Python's \<open>re\<close> module on that range. The only text of the hook outside the range
  is the shield sign of the denial prefix, which is written as its UTF-8 bytes.
\<close>

definition ord :: "char \<Rightarrow> int" where
  "ord c = of_char c"

definition between :: "int \<Rightarrow> int \<Rightarrow> int \<Rightarrow> bool" where
  "between lo hi n = (lo \<le> n \<and> n \<le> hi)"

definition in_range :: "int \<Rightarrow> int \<Rightarrow> char \<Rightarrow> bool" where
  "in_range lo hi c = between lo hi (ord c)"

text \<open>\<open>\s\<close>: the code points for which \<open>str.isspace\<close> holds.\<close>

definition is_space :: "char \<Rightarrow> bool" where
  "is_space c = (let n = ord c in between 9 13 n \<or> between 28 32 n \<or> n = 133 \<or> n = 160)"

text \<open>\<open>\w\<close>: the alphanumeric code points and the underscore.\<close>

definition is_word :: "char \<Rightarrow> bool" where
  "is_word c =
     (let n = ord c
      in between 48 57 n \<or> between 65 90 n \<or> n = 95 \<or> between 97 122 n
         \<or> n = 170 \<or> between 178 179 n \<or> n = 181 \<or> between 185 186 n
         \<or> between 188 190 n \<or> between 192 214 n \<or> between 216 246 n
         \<or> between 248 255 n)"

text \<open>
  Case folding as \<open>re.IGNORECASE\<close> applies it to the letters that occur in the patterns of
  the hook: these are ASCII letters, and below U+0100 such a letter matches exactly its two
  ASCII cases.
\<close>

definition lower :: "char \<Rightarrow> char" where
  "lower c = (let n = ord c in if between 65 90 n then char_of (n + 32) else c)"

definition upper :: "char \<Rightarrow> char" where
  "upper c = (let n = ord c in if between 97 122 n then char_of (n - 32) else c)"

text \<open>\<open>s.startswith(p)\<close> and \<open>s.endswith(p)\<close>.\<close>

definition startswith :: "string \<Rightarrow> string \<Rightarrow> bool" where
  "startswith s p = (take (length p) s = p)"

definition endswith :: "string \<Rightarrow> string \<Rightarrow> bool" where
  "endswith s p = (length p \<le> length s \<and> drop (length s - length p) s = p)"

text \<open>\<open>s.split(sep)\<close> for a separator of one character, and \<open>sep.join(xs)\<close>.\<close>

fun split_sep :: "char \<Rightarrow> string \<Rightarrow> string list" where
  "split_sep sep [] = [[]]"
| "split_sep sep (c # cs) =
     (if c = sep then [] # split_sep sep cs
      else (case split_sep sep cs of
              [] \<Rightarrow> [[c]]
            | x # xs \<Rightarrow> (c # x) # xs))"

fun join_sep :: "string \<Rightarrow> string list \<Rightarrow> string" where
  "join_sep sep [] = []"
| "join_sep sep [x] = x"
| "join_sep sep (x # xs) = x @ sep @ join_sep sep xs"

text \<open>\<open>s.rstrip('/')\<close>.\<close>

definition rstrip_slash :: "string \<Rightarrow> string" where
  "rstrip_slash s = rev (dropWhile (\<lambda>c. c = CHR ''/'') (rev s))"

text \<open>\<open>s.find('/', 1)\<close>, with \<open>None\<close> for the \<open>-1\<close> of Python.\<close>

fun find_slash :: "string \<Rightarrow> nat \<Rightarrow> nat option" where
  "find_slash [] i = None"
| "find_slash (c # cs) i = (if c = CHR ''/'' then Some i else find_slash cs (Suc i))"

section \<open>The regular expressions of \<open>re\<close>, with \<open>re.IGNORECASE\<close>\<close>

text \<open>
  A backtracking matcher after the one of Python: a match attempt at a position returns the
  list of its successes in the order in which backtracking finds them, so the head of the
  list is the match Python reports. A success is the end position and the spans of the
  groups, the most recent first. Every search of the hook passes \<open>re.IGNORECASE\<close>.
\<close>

datatype cset_item = Ch char | Rng char char | SpaceCls

datatype regex =
    Lit string
  | Dot
  | Cls bool "cset_item list"
  | Space
  | WordB
  | Seq regex regex
  | Alt regex regex
  | Star regex
  | Plus regex
  | Opt regex
  | Grp nat regex

type_synonym mstate = "nat \<times> (nat \<times> nat \<times> nat) list"

fun item_has :: "cset_item \<Rightarrow> char \<Rightarrow> bool" where
  "item_has (Ch x) c = (lower c = lower x)"
| "item_has (Rng lo hi) c =
     (in_range (ord lo) (ord hi) (lower c) \<or> in_range (ord lo) (ord hi) (upper c))"
| "item_has SpaceCls c = is_space c"

fun lit_at :: "string \<Rightarrow> nat \<Rightarrow> string \<Rightarrow> bool" where
  "lit_at s i [] = True"
| "lit_at s i (x # xs) = (i < length s \<and> lower (s ! i) = lower x \<and> lit_at s (Suc i) xs)"

text \<open>\<open>\b\<close>: exactly one of the characters before and after the position is a word character.\<close>

definition at_boundary :: "string \<Rightarrow> nat \<Rightarrow> bool" where
  "at_boundary s i =
     ((0 < i \<and> i \<le> length s \<and> is_word (s ! (i - 1))) \<noteq> (i < length s \<and> is_word (s ! i)))"

text \<open>
  Greedy repetition: one more round of the body first, then the rest of the pattern. A round
  that consumes nothing is dropped, so the number of rounds is at most the number of
  characters left, which is the bound given by \<open>matchr\<close>.
\<close>

primrec star_iter :: "(mstate \<Rightarrow> mstate list) \<Rightarrow> nat \<Rightarrow> mstate \<Rightarrow> mstate list" where
  "star_iter f 0 st = [st]"
| "star_iter f (Suc n) st =
     concat (map (star_iter f n) (filter (\<lambda>st'. fst st < fst st') (f st))) @ [st]"

primrec matchr :: "string \<Rightarrow> regex \<Rightarrow> mstate \<Rightarrow> mstate list" where
  "matchr s (Lit w) st = (if lit_at s (fst st) w then [(fst st + length w, snd st)] else [])"
| "matchr s Dot st =
     (if fst st < length s \<and> s ! fst st \<noteq> CHR 0x0A then [(Suc (fst st), snd st)] else [])"
| "matchr s (Cls neg items) st =
     (if fst st < length s \<and> ((\<exists>it \<in> set items. item_has it (s ! fst st)) \<noteq> neg)
      then [(Suc (fst st), snd st)] else [])"
| "matchr s Space st =
     (if fst st < length s \<and> is_space (s ! fst st) then [(Suc (fst st), snd st)] else [])"
| "matchr s WordB st = (if at_boundary s (fst st) then [st] else [])"
| "matchr s (Seq r1 r2) st = concat (map (matchr s r2) (matchr s r1 st))"
| "matchr s (Alt r1 r2) st = matchr s r1 st @ matchr s r2 st"
| "matchr s (Star r) st = star_iter (matchr s r) (length s - fst st) st"
| "matchr s (Plus r) st =
     concat (map (star_iter (matchr s r) (length s - fst st)) (matchr s r st))"
| "matchr s (Opt r) st = matchr s r st @ [st]"
| "matchr s (Grp n r) st =
     map (\<lambda>st'. (fst st', (n, fst st, fst st') # snd st')) (matchr s r st)"

definition match_at :: "regex \<Rightarrow> string \<Rightarrow> nat \<Rightarrow> mstate option" where
  "match_at r s i = (case matchr s r (i, []) of [] \<Rightarrow> None | m # _ \<Rightarrow> Some m)"

text \<open>\<open>re.search(pattern, s, re.IGNORECASE)\<close>: the first position with a match, if any.\<close>

definition re_search :: "regex \<Rightarrow> string \<Rightarrow> nat option" where
  "re_search r s = find (\<lambda>i. match_at r s i \<noteq> None) [0..<Suc (length s)]"

text \<open>
  \<open>re.finditer(pattern, s, re.IGNORECASE)\<close>: the matches from left to right, each search
  starting where the last match ended. No pattern of the hook matches the empty string; after
  an empty match the scan moves on by one character.
\<close>

function finditer_from :: "regex \<Rightarrow> string \<Rightarrow> nat \<Rightarrow> mstate list" where
  "finditer_from r s i =
     (if length s < i then []
      else case match_at r s i of
             None \<Rightarrow> finditer_from r s (Suc i)
           | Some m \<Rightarrow> m # finditer_from r s (if i < fst m then fst m else Suc i))"
  by pat_completeness auto
termination
  by (relation "measure (\<lambda>(r, s, i). Suc (length s) - i)") auto

definition finditer :: "regex \<Rightarrow> string \<Rightarrow> mstate list" where
  "finditer r s = finditer_from r s 0"

text \<open>
  \<open>match.group(n)\<close>. The groups the hook reads take part in every match of their pattern;
  a group that took no part reads as the empty string here.
\<close>

definition group :: "string \<Rightarrow> mstate \<Rightarrow> nat \<Rightarrow> string" where
  "group s m n =
     (case map_of (snd m) n of None \<Rightarrow> [] | Some (a, b) \<Rightarrow> take (b - a) (drop a s))"

fun seqs :: "regex list \<Rightarrow> regex" where
  "seqs [] = Lit []"
| "seqs [r] = r"
| "seqs (r # rs) = Seq r (seqs rs)"

fun alts :: "regex list \<Rightarrow> regex" where
  "alts [] = Cls False []"
| "alts [r] = r"
| "alts (r # rs) = Alt r (alts rs)"

section \<open>The tables of the hook\<close>

text \<open>Shared pieces of the patterns: \<open>\s+\<close>, \<open>\s*\<close>, \<open>.*\<close> and the token \<open>[^\s;|&><]+\<close>.\<close>

definition ws1 :: regex where
  "ws1 = Plus Space"

definition ws0 :: regex where
  "ws0 = Star Space"

definition anything :: regex where
  "anything = Star Dot"

definition token :: regex where
  "token = Plus (Cls True [SpaceCls, Ch CHR '';'', Ch CHR ''|'', Ch CHR ''&'', Ch CHR ''>'',
                          Ch CHR ''<''])"

text \<open>\<open>(-[rRfiv]+\s+)*\<close>, the flags of \<open>rm\<close>.\<close>

definition rm_flags :: regex where
  "rm_flags =
     Star (Grp 1 (seqs [Lit ''-'',
                        Plus (Cls False [Ch CHR ''r'', Ch CHR ''R'', Ch CHR ''f'', Ch CHR ''i'',
                                         Ch CHR ''v'']),
                        ws1]))"

text \<open>\<open>/(?:etc|usr|var|bin|sbin|lib|boot)\<close>.\<close>

definition system_dir :: regex where
  "system_dir =
     Seq (Lit ''/'')
         (alts [Lit ''etc'', Lit ''usr'', Lit ''var'', Lit ''bin'', Lit ''sbin'', Lit ''lib'',
                Lit ''boot''])"

text \<open>\<open>>\s*\<close> followed by the name of a directory.\<close>

definition redirect_to :: "string \<Rightarrow> regex" where
  "redirect_to d = seqs [Lit ''>'', ws0, Lit d]"

definition DANGEROUS_BASH_PATTERNS :: "(regex \<times> string) list" where
  "DANGEROUS_BASH_PATTERNS =
    [(seqs [WordB, Lit ''rm'', ws1, rm_flags, Lit ''/''],
      ''Cannot delete files with absolute paths starting from root''),
     (seqs [WordB, Lit ''rm'', ws1, rm_flags, Lit ''~/''],
      ''Cannot delete files in home directory via rm''),
     (seqs [WordB, Lit ''rm'', ws1, anything, Lit ''..'', Cls False [Ch CHR ''/'', SpaceCls]],
      ''Cannot use .. in rm commands - potential path traversal''),
     (redirect_to ''/etc/'', ''Cannot redirect output to /etc/''),
     (redirect_to ''/usr/'', ''Cannot redirect output to /usr/''),
     (redirect_to ''/var/'', ''Cannot redirect output to /var/''),
     (redirect_to ''/bin/'', ''Cannot redirect output to /bin/''),
     (redirect_to ''/sbin/'', ''Cannot redirect output to /sbin/''),
     (redirect_to ''/lib/'', ''Cannot redirect output to /lib/''),
     (redirect_to ''/boot/'', ''Cannot redirect output to /boot/''),
     (redirect_to ''/sys/'', ''Cannot redirect output to /sys/''),
     (redirect_to ''/proc/'', ''Cannot redirect output to /proc/''),
     (redirect_to ''/root/'', ''Cannot redirect output to /root/''),
     (seqs [WordB, Lit ''chmod'', ws1, anything, ws1, system_dir],
      ''Cannot chmod system directories''),
     (seqs [WordB, Lit ''chown'', ws1, anything, ws1, system_dir],
      ''Cannot chown system directories''),
     (seqs [WordB, Lit ''dd'', ws1, anything, Lit ''of=/dev/''],
      ''Cannot write directly to devices with dd''),
     (seqs [WordB, Lit ''mkfs'', WordB], ''Cannot create filesystems''),
     (seqs [WordB, Lit ''fdisk'', WordB], ''Cannot modify disk partitions''),
     (seqs [WordB, Lit ''parted'', WordB], ''Cannot modify disk partitions''),
     (seqs [WordB, Lit ''killall'', ws1, Lit ''-9'', ws1], ''Cannot use killall -9''),
     (seqs [WordB, Lit ''pkill'', ws1, Lit ''-9'', ws1], ''Cannot use pkill -9''),
     (seqs [WordB, Lit ''systemctl'', ws1,
            Grp 1 (alts [Lit ''stop'', Lit ''disable'', Lit ''mask'']), ws1],
      ''Cannot stop/disable system services''),
     (seqs [WordB, Lit ''launchctl'', ws1, Grp 1 (alts [Lit ''unload'', Lit ''remove'']), ws1],
      ''Cannot unload system services (macOS)''),
     (seqs [WordB, Lit ''iptables'', ws1, anything, Lit ''-F''], ''Cannot flush firewall rules''),
     (seqs [WordB, Lit ''ufw'', ws1, Lit ''disable''], ''Cannot disable firewall''),
     (seqs [WordB, Lit ''sudo'', ws1, Lit ''rm'', ws1], ''Cannot use sudo rm''),
     (seqs [WordB, Lit ''sudo'', ws1, Lit ''chmod'', ws1], ''Cannot use sudo chmod''),
     (seqs [WordB, Lit ''sudo'', ws1, Lit ''chown'', ws1], ''Cannot use sudo chown''),
     (seqs [WordB, Lit ''chmod'', ws1, Lit ''-'', Cls False [Ch CHR ''r'', Ch CHR ''R''], ws1,
            Lit ''/''],
      ''Cannot recursive chmod from root''),
     (seqs [WordB, Lit ''chown'', ws1, Lit ''-'', Cls False [Ch CHR ''r'', Ch CHR ''R''], ws1,
            Lit ''/''],
      ''Cannot recursive chown from root''),
     (seqs [WordB, Lit ''find'', ws1, Lit ''/'', ws1, anything, Lit ''-delete''],
      ''Cannot use find / with -delete''),
     (seqs [WordB, Lit ''find'', ws1, Lit ''/'', ws1, anything, Lit ''-exec'', ws1, Lit ''rm''],
      ''Cannot use find / with -exec rm'')]"

text \<open>\<open>>\s*([^\s;|&><]+)\<close>, \<open>>>\s*([^\s;|&><]+)\<close> and \<open>\btee\s+(?:-a\s+)?([^\s;|&><]+)\<close>.\<close>

definition redirect_pattern :: regex where
  "redirect_pattern = seqs [Lit ''>'', ws0, Grp 1 token]"

definition append_pattern :: regex where
  "append_pattern = seqs [Lit ''>>'', ws0, Grp 1 token]"

definition tee_pattern :: regex where
  "tee_pattern = seqs [WordB, Lit ''tee'', ws1, Opt (Seq (Lit ''-a'') ws1), Grp 1 token]"

definition BASH_WRITE_PATTERNS :: "(regex \<times> string) list" where
  "BASH_WRITE_PATTERNS =
    [(redirect_pattern, ''redirect output''),
     (append_pattern, ''append output''),
     (tee_pattern, ''tee'')]"

text \<open>\<open>(?:-[a-zA-Z]+\s+)*\<close>, the flags of \<open>cp\<close> and \<open>mv\<close>.\<close>

definition copy_flags :: regex where
  "copy_flags =
     Star (seqs [Lit ''-'', Plus (Cls False [Rng CHR ''a'' CHR ''z'', Rng CHR ''A'' CHR ''Z'']),
                 ws1])"

text \<open>\<open>\bcp\s+(?:-[a-zA-Z]+\s+)*([^\s;|&><]+)\s+([^\s;|&><]+)\<close>, and the same for \<open>mv\<close>.\<close>

definition cp_pattern :: regex where
  "cp_pattern = seqs [WordB, Lit ''cp'', ws1, copy_flags, Grp 1 token, ws1, Grp 2 token]"

definition mv_pattern :: regex where
  "mv_pattern = seqs [WordB, Lit ''mv'', ws1, copy_flags, Grp 1 token, ws1, Grp 2 token]"

definition BASH_COPY_PATTERNS :: "regex list" where
  "BASH_COPY_PATTERNS = [cp_pattern, mv_pattern]"

definition PROTECTED_DIRECTORIES :: "string list" where
  "PROTECTED_DIRECTORIES =
    [''/etc'', ''/usr'', ''/var'', ''/bin'', ''/sbin'', ''/lib'', ''/lib64'', ''/boot'', ''/sys'',
     ''/proc'', ''/dev'', ''/root'', ''/System'', ''/Library'', ''/Applications'']"

section \<open>The environment and \<open>os.path\<close>\<close>

text \<open>
  What the hook reads from its process: the environment variables, the working directory
  (\<open>os.getcwd()\<close> raises when it is gone) and the password database that
  \<open>os.path.expanduser\<close> consults.
\<close>

record env =
  environ :: "string \<rightharpoonup> string"
  getcwd :: "string option"
  pw_dir_uid :: "string option"
  pw_dir_nam :: "string \<Rightarrow> string option"

datatype error = FileNotFoundError | ValueError

text \<open>
  \<open>pwd.getpwnam(name).pw_dir\<close>: \<open>ValueError\<close> for a name with a NUL character in it,
  \<open>None\<close> for the \<open>KeyError\<close> of an unknown name.
\<close>

definition getpwnam :: "env \<Rightarrow> string \<Rightarrow> error + string option" where
  "getpwnam e name = (if CHR 0x00 \<in> set name then Inl ValueError else Inr (pw_dir_nam e name))"

text \<open>The end of \<open>posixpath.expanduser\<close>: the home directory put in place of the prefix.\<close>

definition with_userhome :: "string option \<Rightarrow> string \<Rightarrow> nat \<Rightarrow> string" where
  "with_userhome userhome path i =
     (case userhome of
        None \<Rightarrow> path
      | Some h \<Rightarrow> (let p = rstrip_slash h @ drop i path in if p = [] then ''/'' else p))"

text \<open>
  \<open>posixpath.expanduser\<close>. It catches the \<open>KeyError\<close> of the password database and nothing
  else, so the \<open>ValueError\<close> of \<open>pwd.getpwnam\<close> leaves it.
\<close>

definition expanduser :: "env \<Rightarrow> string \<Rightarrow> error + string" where
  "expanduser e path =
     (if \<not> startswith path ''~'' then Inr path
      else
        let i = (case find_slash (drop 1 path) 1 of None \<Rightarrow> length path | Some k \<Rightarrow> k)
        in if i = 1
           then Inr (with_userhome
                       (case environ e ''HOME'' of None \<Rightarrow> pw_dir_uid e | Some h \<Rightarrow> Some h)
                       path i)
           else (case getpwnam e (take (i - 1) (drop 1 path)) of
                   Inl err \<Rightarrow> Inl err
                 | Inr userhome \<Rightarrow> Inr (with_userhome userhome path i)))"

text \<open>\<open>posixpath.join\<close> of two paths.\<close>

definition join :: "string \<Rightarrow> string \<Rightarrow> string" where
  "join a b =
     (if startswith b ''/'' then b
      else if a = [] \<or> endswith a ''/'' then a @ b
      else a @ ''/'' @ b)"

text \<open>\<open>posixpath.normpath\<close>: the loop body over the components, then the function.\<close>

definition norm_step :: "nat \<Rightarrow> string list \<Rightarrow> string \<Rightarrow> string list" where
  "norm_step initial_slashes new_comps component =
     (if component = [] \<or> component = ''.'' then new_comps
      else if component \<noteq> ''..'' \<or> (initial_slashes = 0 \<and> new_comps = [])
              \<or> (new_comps \<noteq> [] \<and> last new_comps = ''..'')
      then new_comps @ [component]
      else if new_comps \<noteq> [] then butlast new_comps
      else new_comps)"

definition normpath :: "string \<Rightarrow> string" where
  "normpath path =
     (if path = [] then ''.''
      else
        let initial_slashes =
              (if startswith path ''/''
               then (if startswith path ''//'' \<and> \<not> startswith path ''///'' then 2 else 1)
               else 0);
            new_comps = foldl (norm_step initial_slashes) [] (split_sep CHR ''/'' path);
            p = replicate initial_slashes CHR ''/'' @ join_sep ''/'' new_comps
        in if p = [] then ''.'' else p)"

text \<open>\<open>posixpath.abspath\<close>: a relative path needs the working directory.\<close>

definition abspath :: "env \<Rightarrow> string \<Rightarrow> error + string" where
  "abspath e path =
     (if startswith path ''/'' then Inr (normpath path)
      else case getcwd e of
             None \<Rightarrow> Inl FileNotFoundError
           | Some cwd \<Rightarrow> Inr (normpath (join cwd path)))"

text \<open>\<open>os.path.abspath(os.path.expanduser(path))\<close>, as both predicates resolve a path.\<close>

definition abspath_expanduser :: "env \<Rightarrow> string \<Rightarrow> error + string" where
  "abspath_expanduser e path =
     (case expanduser e path of Inl err \<Rightarrow> Inl err | Inr expanded \<Rightarrow> abspath e expanded)"

section \<open>The boundary predicates\<close>

text \<open>
  Each predicate is a \<open>try\<close> block with \<open>except Exception\<close>: the body, which may raise, and
  the function, which turns a raised exception into its fail-open answer.
\<close>

text \<open>
  \<open>os.path.expanduser(os.environ.get('CLAUDE_CONFIG_DIR', '~/.claude'))\<close>, the
  configuration directory before it is made absolute.
\<close>

definition claude_config_dir :: "env \<Rightarrow> error + string" where
  "claude_config_dir e =
     expanduser e (case environ e ''CLAUDE_CONFIG_DIR'' of
                     None \<Rightarrow> ''~/.claude''
                   | Some d \<Rightarrow> d)"

definition is_path_outside_project_body :: "env \<Rightarrow> string \<Rightarrow> string \<Rightarrow> error + bool" where
  "is_path_outside_project_body e file_path project_root =
     (case abspath_expanduser e file_path of
        Inl err \<Rightarrow> Inl err
      | Inr abs_file \<Rightarrow>
     (case abspath e project_root of
        Inl err \<Rightarrow> Inl err
      | Inr abs_project \<Rightarrow>
     (case claude_config_dir e of
        Inl err \<Rightarrow> Inl err
      | Inr config_dir \<Rightarrow>
     (case abspath e config_dir of
        Inl err \<Rightarrow> Inl err
      | Inr abs_claude_config \<Rightarrow>
          if startswith abs_file (abs_claude_config @ ''/'') \<or> abs_file = abs_claude_config
          then Inr False
          else if startswith abs_file ''/tmp/'' \<or> startswith abs_file ''/private/tmp/''
          then Inr False
          else Inr (\<not> startswith abs_file (abs_project @ ''/'')
                    \<and> abs_file \<noteq> abs_project)))))"

definition is_path_outside_project :: "env \<Rightarrow> string \<Rightarrow> string \<Rightarrow> bool" where
  "is_path_outside_project e file_path project_root =
     (case is_path_outside_project_body e file_path project_root of
        Inl err \<Rightarrow> False
      | Inr outside \<Rightarrow> outside)"

definition is_protected_path_body :: "env \<Rightarrow> string \<Rightarrow> error + (bool \<times> string)" where
  "is_protected_path_body e file_path =
     (case abspath_expanduser e file_path of
        Inl err \<Rightarrow> Inl err
      | Inr abs_path \<Rightarrow>
          (case find (\<lambda>protected_dir. startswith abs_path (protected_dir @ ''/'')
                                      \<or> abs_path = protected_dir)
                     PROTECTED_DIRECTORIES of
             Some protected_dir \<Rightarrow>
               Inr (True, ''Cannot modify files in protected directory: '' @ protected_dir)
           | None \<Rightarrow> Inr (False, [])))"

definition is_protected_path :: "env \<Rightarrow> string \<Rightarrow> bool \<times> string" where
  "is_protected_path e file_path =
     (case is_protected_path_body e file_path of
        Inl err \<Rightarrow> (False, [])
      | Inr res \<Rightarrow> res)"

section \<open>The checks on a command\<close>

definition check_bash_command :: "string \<Rightarrow> bool \<times> string" where
  "check_bash_command command =
     (case find (\<lambda>(pattern, reason). re_search pattern command \<noteq> None)
                DANGEROUS_BASH_PATTERNS of
        Some (pattern, reason) \<Rightarrow> (True, reason)
      | None \<Rightarrow> (False, []))"

text \<open>
  A \<open>for\<close> loop whose body may \<open>return\<close>: the first element on which the body returns decides,
  \<open>None\<close> when the loop runs to its end.
\<close>

fun first_return :: "('a \<Rightarrow> 'b option) \<Rightarrow> 'a list \<Rightarrow> 'b option" where
  "first_return f [] = None"
| "first_return f (x # xs) = (case f x of Some r \<Rightarrow> Some r | None \<Rightarrow> first_return f xs)"

definition apostrophe :: string where
  "apostrophe = [CHR 0x27]"

text \<open>The body of the inner loop of \<open>check_bash_write_paths\<close>, for one target.\<close>

definition check_write_target :: "env \<Rightarrow> string \<Rightarrow> string \<Rightarrow> string \<Rightarrow> (bool \<times> string) option" where
  "check_write_target e project_root desc target_path =
     (if startswith target_path ''/dev/'' then None
      else if startswith target_path ''/tmp/'' \<or> startswith target_path ''/private/tmp/''
      then None
      else if \<not> startswith target_path ''/'' then None
      else if fst (is_protected_path e target_path)
      then Some (True, ''Cannot '' @ desc @ '' to protected path: '' @ target_path)
      else if is_path_outside_project e target_path project_root
      then Some (True, ''Cannot '' @ desc @ '' to '' @ apostrophe @ target_path @ apostrophe
                       @ '' - path is outside project directory'')
      else None)"

text \<open>The targets of one pattern in a command: group 1 of every match.\<close>

definition write_targets :: "regex \<Rightarrow> string \<Rightarrow> string list" where
  "write_targets pattern command = map (\<lambda>m. group command m 1) (finditer pattern command)"

definition check_bash_write_paths :: "env \<Rightarrow> string \<Rightarrow> string \<Rightarrow> bool \<times> string" where
  "check_bash_write_paths e command project_root =
     (case first_return
             (\<lambda>(pattern, desc).
                first_return (check_write_target e project_root desc)
                             (write_targets pattern command))
             BASH_WRITE_PATTERNS of
        Some res \<Rightarrow> res
      | None \<Rightarrow> (False, []))"

text \<open>
  The same loop when the body may also raise: the exception ends the loop and leaves the
  function.
\<close>

fun first_return_or_raise :: "('a \<Rightarrow> error + 'b option) \<Rightarrow> 'a list \<Rightarrow> error + 'b option" where
  "first_return_or_raise f [] = Inr None"
| "first_return_or_raise f (x # xs) =
     (case f x of
        Inl err \<Rightarrow> Inl err
      | Inr (Some r) \<Rightarrow> Inr (Some r)
      | Inr None \<Rightarrow> first_return_or_raise f xs)"

text \<open>
  The body of the inner loop of \<open>check_bash_copy_operations\<close>, for one match. The two calls
  of \<open>os.path.expanduser\<close> stand outside any \<open>try\<close>, so what they raise leaves the function.
\<close>

definition check_copy_match :: "env \<Rightarrow> string \<Rightarrow> string \<times> string \<Rightarrow> error + (bool \<times> string) option" where
  "check_copy_match e project_root paths =
     (let source_path = fst paths;
          dest_path = snd paths
      in case expanduser e source_path of
           Inl err \<Rightarrow> Inl err
         | Inr source_expanded \<Rightarrow>
      (case expanduser e dest_path of
           Inl err \<Rightarrow> Inl err
         | Inr dest_expanded \<Rightarrow>
         Inr (if (startswith source_path ''~'' \<or> startswith source_path ''/'')
                 \<and> \<not> (startswith source_expanded ''/tmp/''
                         \<or> startswith source_expanded ''/private/tmp/'')
                 \<and> is_path_outside_project e source_expanded project_root
              then Some (True, ''Cannot copy/move from '' @ apostrophe @ source_path
                               @ apostrophe @ '' - source is outside project directory'')
              else if startswith dest_path ''~'' \<or> startswith dest_path ''/''
              then (if startswith dest_expanded ''/tmp/''
                       \<or> startswith dest_expanded ''/private/tmp/''
                    then None
                    else if fst (is_protected_path e dest_expanded)
                    then Some (True, ''Cannot copy/move to protected path: '' @ dest_path)
                    else if is_path_outside_project e dest_expanded project_root
                    then Some (True, ''Cannot copy/move to '' @ apostrophe @ dest_path
                                     @ apostrophe
                                     @ '' - destination is outside project directory'')
                    else None)
              else None)))"

text \<open>The source and the destination of every match of one pattern: groups 1 and 2.\<close>

definition copy_paths :: "regex \<Rightarrow> string \<Rightarrow> (string \<times> string) list" where
  "copy_paths pattern command =
     map (\<lambda>m. (group command m 1, group command m 2)) (finditer pattern command)"

definition check_bash_copy_operations :: "env \<Rightarrow> string \<Rightarrow> string \<Rightarrow> error + (bool \<times> string)" where
  "check_bash_copy_operations e command project_root =
     (case first_return_or_raise
             (\<lambda>pattern. first_return_or_raise (check_copy_match e project_root)
                                               (copy_paths pattern command))
             BASH_COPY_PATTERNS of
        Inl err \<Rightarrow> Inl err
      | Inr (Some res) \<Rightarrow> Inr res
      | Inr None \<Rightarrow> Inr (False, []))"

section \<open>The dispatcher\<close>

text \<open>
  The decoded request: \<open>tool_name\<close>, the \<open>file_path\<close> and \<open>command\<close> entries of
  \<open>tool_input\<close> and the \<open>cwd\<close> entry, each \<open>None\<close> when the key is absent.
\<close>

record hook_input =
  tool_name :: string
  file_path :: "string option"
  command :: "string option"
  cwd :: "string option"

text \<open>
  What the process does: it prints a denial and exits (\<open>deny_tool\<close>), or exits without
  output (\<open>allow_tool\<close>).
\<close>

datatype verdict = Allow | Deny string

definition blocked :: "string \<Rightarrow> string" where
  "blocked reason =
     [CHR 0xF0, CHR 0x9F, CHR 0x9B, CHR 0xA1, CHR 0xEF, CHR 0xB8, CHR 0x8F] @ '' BLOCKED: ''
     @ reason"

definition with_command :: "string \<Rightarrow> string \<Rightarrow> string" where
  "with_command reason cmd = blocked reason @ [CHR 0x0A] @ ''Command: '' @ cmd"

text \<open>\<open>d.get(key, "")\<close> on an optional entry.\<close>

definition get_or_empty :: "string option \<Rightarrow> string" where
  "get_or_empty v = (case v of None \<Rightarrow> [] | Some s \<Rightarrow> s)"

text \<open>
  \<open>env_project_dir or input_data.get("cwd") or os.getcwd()\<close>: an absent or empty value is
  false, and \<open>os.getcwd()\<close> is only called when both are.
\<close>

definition main_project_root :: "env \<Rightarrow> hook_input \<Rightarrow> error + string" where
  "main_project_root e input_data =
     (if get_or_empty (environ e ''CLAUDE_PROJECT_DIR'') \<noteq> []
      then Inr (get_or_empty (environ e ''CLAUDE_PROJECT_DIR''))
      else if get_or_empty (cwd input_data) \<noteq> [] then Inr (get_or_empty (cwd input_data))
      else case getcwd e of None \<Rightarrow> Inl FileNotFoundError | Some d \<Rightarrow> Inr d)"

text \<open>The two blocks of \<open>main\<close>: \<open>Some\<close> when the block exits the process.\<close>

definition main_write_edit :: "env \<Rightarrow> hook_input \<Rightarrow> string \<Rightarrow> verdict option" where
  "main_write_edit e input_data project_root =
     (let path = get_or_empty (file_path input_data)
      in if path = [] then Some Allow
         else if fst (is_protected_path e path)
         then Some (Deny (blocked (snd (is_protected_path e path))))
         else if is_path_outside_project e path project_root
         then Some (Deny (blocked (''Cannot write to '' @ apostrophe @ path @ apostrophe
                                   @ '' - path is outside project directory '' @ apostrophe
                                   @ project_root @ apostrophe)))
         else None)"

definition main_bash :: "env \<Rightarrow> hook_input \<Rightarrow> string \<Rightarrow> error + verdict option" where
  "main_bash e input_data project_root =
     (let cmd = get_or_empty (command input_data)
      in if cmd = [] then Inr (Some Allow)
         else if fst (check_bash_command cmd)
         then Inr (Some (Deny (with_command (snd (check_bash_command cmd)) cmd)))
         else if fst (check_bash_write_paths e cmd project_root)
         then Inr (Some (Deny (with_command (snd (check_bash_write_paths e cmd project_root))
                                            cmd)))
         else (case check_bash_copy_operations e cmd project_root of
                 Inl err \<Rightarrow> Inl err
               | Inr (is_blocked, reason) \<Rightarrow>
                   if is_blocked then Inr (Some (Deny (with_command reason cmd)))
                   else Inr None))"

text \<open>
  \<open>main\<close> on the decoded input, \<open>None\<close> when the input is not JSON. \<open>Inl\<close> is an exception that
  leaves \<open>main\<close>: the process ends without a verdict.
\<close>

definition main :: "env \<Rightarrow> hook_input option \<Rightarrow> error + verdict" where
  "main e decoded =
     (case decoded of
        None \<Rightarrow> Inr Allow
      | Some input_data \<Rightarrow>
          (case main_project_root e input_data of
             Inl err \<Rightarrow> Inl err
           | Inr project_root \<Rightarrow>
               (case (if tool_name input_data = ''Write'' \<or> tool_name input_data = ''Edit''
                      then main_write_edit e input_data project_root else None) of
                  Some v \<Rightarrow> Inr v
                | None \<Rightarrow>
                    (case (if tool_name input_data = ''Bash''
                           then main_bash e input_data project_root else Inr None) of
                       Inl err \<Rightarrow> Inl err
                     | Inr (Some v) \<Rightarrow> Inr v
                     | Inr None \<Rightarrow> Inr Allow))))"

section \<open>Notions used to state the properties\<close>

text \<open>
  The occurrences that the two nested loops of \<open>check_bash_write_paths\<close> visit, in the order
  of the visit: the operation kind and the target. Likewise the source and destination pairs
  that \<open>check_bash_copy_operations\<close> visits.
\<close>

definition write_occurrences :: "string \<Rightarrow> (string \<times> string) list" where
  "write_occurrences cmd =
     concat (map (\<lambda>(pattern, desc). map (\<lambda>t. (desc, t)) (write_targets pattern cmd))
                 BASH_WRITE_PATTERNS)"

definition copy_occurrences :: "string \<Rightarrow> (string \<times> string) list" where
  "copy_occurrences cmd = concat (map (\<lambda>pattern. copy_paths pattern cmd) BASH_COPY_PATTERNS)"

text \<open>
  The segments of a path, and nesting by whole segments: \<open>nested_under r p\<close> holds when \<open>p\<close> is \<open>r\<close>
  or lies below \<open>r\<close>.
\<close>

definition segments :: "string \<Rightarrow> string list" where
  "segments p = split_sep CHR ''/'' p"

definition nested_under :: "string \<Rightarrow> string \<Rightarrow> bool" where
  "nested_under r p = prefix (segments r) (segments p)"

text \<open>
  The named directories of a path, for comparing with the file-system root, whose path has
  none.
\<close>

definition components :: "string \<Rightarrow> string list" where
  "components p = filter (\<lambda>c. c \<noteq> []) (segments p)"

text \<open>An environment for the examples: a user at work in a project.\<close>

definition example_env :: env where
  "example_env =
     \<lparr>environ = [''HOME'' \<mapsto> ''/home/user''],
      getcwd = Some ''/home/user/project'',
      pw_dir_uid = Some ''/home/user'',
      pw_dir_nam = (\<lambda>name. if name = ''root'' then Some ''/root'' else None)\<rparr>"

text \<open>The same user after the working directory has been removed.\<close>

definition stranded_env :: env where
  "stranded_env = example_env\<lparr>getcwd := None\<rparr>"

text \<open>A request to run a command, with no working directory in the envelope.\<close>

definition bash_request :: "string \<Rightarrow> hook_input" where
  "bash_request cmd = \<lparr>tool_name = ''Bash'', file_path = None, command = Some cmd, cwd = None\<rparr>"

text \<open>A home-directory shorthand whose user name has a NUL character in it.\<close>

definition nul_user_path :: string where
  "nul_user_path = ''~a'' @ [CHR 0x00] @ ''b''"

section \<open>Case folding does not change a match\<close>

lemma ord_bounds: "0 \<le> ord c \<and> ord c < 256"
  unfolding ord_def
  by (metis of_char_mod_256 pos_mod_bound pos_mod_sign zero_less_numeral)

lemma ord_char_of: "0 \<le> n \<Longrightarrow> n < 256 \<Longrightarrow> ord (char_of n) = n"
  unfolding ord_def by simp

lemma ord_lower: "ord (lower c) = (if between 65 90 (ord c) then ord c + 32 else ord c)"
  unfolding lower_def Let_def between_def using ord_bounds[of c]
  by (auto simp: ord_char_of)

lemma ord_upper: "ord (upper c) = (if between 97 122 (ord c) then ord c - 32 else ord c)"
  unfolding upper_def Let_def between_def using ord_bounds[of c]
  by (auto simp: ord_char_of)

lemma ord_inject: "ord a = ord b \<Longrightarrow> a = b"
  unfolding ord_def by simp

lemma lower_lower: "lower (lower c) = lower c"
  by (rule ord_inject) (auto simp: ord_lower between_def)

lemma upper_lower: "upper (lower c) = upper c"
  by (rule ord_inject) (auto simp: ord_lower ord_upper between_def)

lemma is_space_lower: "is_space (lower c) = is_space c"
  unfolding is_space_def Let_def by (auto simp: ord_lower between_def)

lemma is_word_lower: "is_word (lower c) = is_word c"
  unfolding is_word_def Let_def by (auto simp: ord_lower between_def)

lemma ord_newline: "ord (CHR 0x0A) = 10"
  unfolding ord_def by simp

lemma lower_newline: "(lower c = CHR 0x0A) = (c = CHR 0x0A)"
proof -
  have "(lower c = CHR 0x0A) = (ord (lower c) = 10)"
    using ord_inject[of "lower c" "CHR 0x0A"] by (auto simp: ord_newline)
  also have "\<dots> = (ord c = 10)"
    by (auto simp: ord_lower between_def)
  also have "\<dots> = (c = CHR 0x0A)"
    using ord_inject[of c "CHR 0x0A"] by (auto simp: ord_newline)
  finally show ?thesis .
qed

lemma item_has_lower: "item_has it (lower c) = item_has it c"
  by (cases it) (simp_all add: lower_lower upper_lower is_space_lower)

lemma lit_at_lower: "lit_at (map lower s) i w = lit_at s i w"
  by (induction w arbitrary: i) (auto simp: lower_lower)

lemma at_boundary_lower: "at_boundary (map lower s) i = at_boundary s i"
proof -
  have a: "(0 < i \<and> i \<le> length s \<and> is_word (map lower s ! (i - 1)))
           = (0 < i \<and> i \<le> length s \<and> is_word (s ! (i - 1)))"
    by (cases "0 < i \<and> i \<le> length s") (auto simp: is_word_lower)
  have b: "(i < length s \<and> is_word (map lower s ! i)) = (i < length s \<and> is_word (s ! i))"
    by (cases "i < length s") (auto simp: is_word_lower)
  show ?thesis unfolding at_boundary_def using a b by simp
qed

lemma matchr_lower: "matchr (map lower s) r st = matchr s r st"
proof (induction r arbitrary: st)
  case (Lit w)
  show ?case by (simp add: lit_at_lower)
next
  case Dot
  show ?case by (cases "fst st < length s") (auto simp: lower_newline)
next
  case (Cls neg items)
  show ?case by (cases "fst st < length s") (auto simp: item_has_lower)
next
  case Space
  show ?case by (cases "fst st < length s") (auto simp: is_space_lower)
next
  case WordB
  show ?case by (simp add: at_boundary_lower)
next
  case (Seq r1 r2)
  then have "matchr (map lower s) r2 = matchr s r2" by (intro ext)
  with Seq show ?case by simp
next
  case (Alt r1 r2)
  then show ?case by simp
next
  case (Star r)
  then have "matchr (map lower s) r = matchr s r" by (intro ext)
  then show ?case by simp
next
  case (Plus r)
  then have "matchr (map lower s) r = matchr s r" by (intro ext)
  then show ?case by simp
next
  case (Opt r)
  then show ?case by simp
next
  case (Grp n r)
  then show ?case by simp
qed

lemma match_at_lower: "match_at r (map lower s) i = match_at r s i"
  unfolding match_at_def by (simp add: matchr_lower)

lemma re_search_lower: "re_search r (map lower s) = re_search r s"
  unfolding re_search_def by (simp add: match_at_lower)

lemma check_bash_command_lower: "check_bash_command (map lower cmd) = check_bash_command cmd"
  unfolding check_bash_command_def by (simp add: re_search_lower)

section \<open>Loops that return early\<close>

lemma first_return_append:
  "first_return f (xs @ ys) = (case first_return f xs of Some r \<Rightarrow> Some r | None \<Rightarrow> first_return f ys)"
  by (induction xs) (auto split: option.splits)

lemma first_return_map: "first_return f (map g xs) = first_return (\<lambda>x. f (g x)) xs"
  by (induction xs) (auto split: option.splits)

lemma first_return_concat_map:
  "first_return f (concat (map g xs)) = first_return (\<lambda>x. first_return f (g x)) xs"
  by (induction xs) (auto simp: first_return_append split: option.splits)




lemma check_bash_write_paths_occurrences:
  "check_bash_write_paths e cmd root =
     (case first_return (\<lambda>(desc, t). check_write_target e root desc t) (write_occurrences cmd) of
        Some res \<Rightarrow> res
      | None \<Rightarrow> (False, []))"
  unfolding check_bash_write_paths_def write_occurrences_def
  by (simp add: first_return_concat_map first_return_map split_def)

lemma first_return_or_raise_append:
  "first_return_or_raise f (xs @ ys) =
     (case first_return_or_raise f xs of
        Inl err \<Rightarrow> Inl err
      | Inr (Some r) \<Rightarrow> Inr (Some r)
      | Inr None \<Rightarrow> first_return_or_raise f ys)"
  by (induction xs) (auto split: sum.splits option.splits)

lemma first_return_or_raise_concat_map:
  "first_return_or_raise f (concat (map g xs)) =
     first_return_or_raise (\<lambda>x. first_return_or_raise f (g x)) xs"
  by (induction xs) (auto simp: first_return_or_raise_append split: sum.splits option.splits)

lemma check_bash_copy_operations_occurrences:
  "check_bash_copy_operations e cmd root =
     (case first_return_or_raise (check_copy_match e root) (copy_occurrences cmd) of
        Inl err \<Rightarrow> Inl err
      | Inr (Some res) \<Rightarrow> Inr res
      | Inr None \<Rightarrow> Inr (False, []))"
  unfolding check_bash_copy_operations_def copy_occurrences_def
  by (simp add: first_return_or_raise_concat_map)


section \<open>Nesting by segments is what the prefix tests decide\<close>

lemma split_sep_nonempty: "split_sep sep s \<noteq> []"
  by (induction s) (auto split: list.splits)

lemma prefix_split_sep:
  "prefix (split_sep sep r) (split_sep sep p) = (p = r \<or> take (Suc (length r)) p = r @ [sep])"
proof (induction r arbitrary: p)
  case Nil
  show ?case by (cases p) (auto split: list.splits)
next
  case (Cons a as)
  show ?case
  proof (cases p)
    case Nil
    then show ?thesis using split_sep_nonempty[of sep as] by (auto split: list.splits)
  next
    case (Cons c cs)
    then show ?thesis
      using Cons.IH[of cs] split_sep_nonempty[of sep as] split_sep_nonempty[of sep cs]
      by (auto split: list.splits)
  qed
qed

lemma nested_under_iff: "nested_under r p = (p = r \<or> startswith p (r @ ''/''))"
  unfolding nested_under_def segments_def startswith_def by (simp add: prefix_split_sep)

section \<open>The boundary predicates\<close>

lemma startswith_Cons: "startswith (c # cs) (d # ds) = (c = d \<and> startswith cs ds)"
  unfolding startswith_def by auto

lemma startswith_Nil: "startswith s [] = True"
  unfolding startswith_def by simp

lemma startswith_Nil_left: "startswith [] (d # ds) = False"
  unfolding startswith_def by simp

lemma expanduser_no_tilde: "\<not> startswith path ''~'' \<Longrightarrow> expanduser e path = Inr path"
  unfolding expanduser_def by simp

lemma expanduser_absolute: "startswith path ''/'' \<Longrightarrow> expanduser e path = Inr path"
  by (cases path) (auto simp: expanduser_def startswith_def)

lemma abspath_absolute: "startswith path ''/'' \<Longrightarrow> abspath e path = Inr (normpath path)"
  unfolding abspath_def by simp

lemma abspath_expanduser_absolute:
  "startswith path ''/'' \<Longrightarrow> abspath_expanduser e path = Inr (normpath path)"
  unfolding abspath_expanduser_def by (simp add: expanduser_absolute abspath_absolute)

lemma is_protected_path_resolved:
  assumes "abspath_expanduser e path = Inr p"
  shows "is_protected_path e path =
           (case find (\<lambda>r. nested_under r p) PROTECTED_DIRECTORIES of
              Some r \<Rightarrow> (True, ''Cannot modify files in protected directory: '' @ r)
            | None \<Rightarrow> (False, []))"
proof -
  have "(\<lambda>d. startswith p (d @ ''/'') \<or> p = d) = (\<lambda>r. nested_under r p)"
    by (intro ext) (auto simp: nested_under_iff)
  then show ?thesis
    unfolding is_protected_path_def is_protected_path_body_def using assms
    by (simp split: option.splits)
qed

text \<open>
  C4. A path that resolves to a protected root, or below one by whole segments, is classified
  as protected, and the reason names the first root of the list that it lies under. A path
  that lies under no root by whole segments is not protected, whatever string prefix it shares
  with a root. The resolved path is the result of \<open>os.path.abspath(os.path.expanduser(path))\<close>
  when neither call raises.
\<close>

theorem protected_iff_under_root:
  assumes "abspath_expanduser e path = Inr p"
  shows "((\<exists>r \<in> set PROTECTED_DIRECTORIES. nested_under r p) \<longrightarrow>
            (\<exists>r. find (\<lambda>r. nested_under r p) PROTECTED_DIRECTORIES = Some r
                 \<and> is_protected_path e path
                     = (True, ''Cannot modify files in protected directory: '' @ r)))
         \<and> ((\<forall>r \<in> set PROTECTED_DIRECTORIES. \<not> nested_under r p) \<longrightarrow>
               is_protected_path e path = (False, []))"
proof (intro conjI impI)
  assume "\<exists>r \<in> set PROTECTED_DIRECTORIES. nested_under r p"
  then obtain r where "find (\<lambda>r. nested_under r p) PROTECTED_DIRECTORIES = Some r"
    by (cases "find (\<lambda>r. nested_under r p) PROTECTED_DIRECTORIES") (auto simp: find_None_iff)
  then show "\<exists>r. find (\<lambda>r. nested_under r p) PROTECTED_DIRECTORIES = Some r
                 \<and> is_protected_path e path
                     = (True, ''Cannot modify files in protected directory: '' @ r)"
    by (simp add: is_protected_path_resolved[OF assms])
next
  assume "\<forall>r \<in> set PROTECTED_DIRECTORIES. \<not> nested_under r p"
  then have "find (\<lambda>r. nested_under r p) PROTECTED_DIRECTORIES = None"
    by (simp add: find_None_iff)
  then show "is_protected_path e path = (False, [])"
    by (simp add: is_protected_path_resolved[OF assms])
qed

lemma resolve_etc_passwd:
  "abspath_expanduser example_env ''/etc/passwd'' = Inr ''/etc/passwd''"
  by code_simp

lemma resolve_lib64:
  "abspath_expanduser example_env ''/lib64/ld.so'' = Inr ''/lib64/ld.so''"
  by code_simp

lemma resolve_usrlocal:
  "abspath_expanduser example_env ''/usrlocal'' = Inr ''/usrlocal''"
  by code_simp

lemma resolve_variant:
  "abspath_expanduser example_env ''/variant/x'' = Inr ''/variant/x''"
  by code_simp

lemma root_of_etc_passwd:
  "find (\<lambda>r. nested_under r ''/etc/passwd'') PROTECTED_DIRECTORIES = Some ''/etc''"
  by code_simp

lemma root_of_lib64:
  "find (\<lambda>r. nested_under r ''/lib64/ld.so'') PROTECTED_DIRECTORIES = Some ''/lib64''"
  by code_simp

lemma no_root_of_usrlocal:
  "\<forall>r \<in> set PROTECTED_DIRECTORIES. \<not> nested_under r ''/usrlocal''"
  by code_simp

lemma no_root_of_variant:
  "\<forall>r \<in> set PROTECTED_DIRECTORIES. \<not> nested_under r ''/variant/x''"
  by code_simp

theorem protected_iff_under_root_witness:
  "is_protected_path example_env ''/etc/passwd''
     = (True, ''Cannot modify files in protected directory: /etc'')
   \<and> is_protected_path example_env ''/lib64/ld.so''
     = (True, ''Cannot modify files in protected directory: /lib64'')
   \<and> is_protected_path example_env ''/usrlocal'' = (False, [])
   \<and> is_protected_path example_env ''/variant/x'' = (False, [])"
proof -
  have a: "\<exists>r \<in> set PROTECTED_DIRECTORIES. nested_under r ''/etc/passwd''"
    using root_of_etc_passwd by (meson find_Some_iff nth_mem)
  have b: "\<exists>r \<in> set PROTECTED_DIRECTORIES. nested_under r ''/lib64/ld.so''"
    using root_of_lib64 by (meson find_Some_iff nth_mem)
  show ?thesis
    using protected_iff_under_root[OF resolve_etc_passwd] a root_of_etc_passwd
      protected_iff_under_root[OF resolve_lib64] b root_of_lib64
      protected_iff_under_root[OF resolve_usrlocal] no_root_of_usrlocal
      protected_iff_under_root[OF resolve_variant] no_root_of_variant
    by simp
qed

text \<open>
  Where resolution raises: \<open>os.path.expanduser\<close> on a user name with a NUL character in it,
  and \<open>os.getcwd()\<close> for a relative path when the working directory is gone.
\<close>

lemma expanduser_raises:
  "(expanduser e path = Inl err) =
     (err = ValueError \<and> startswith path ''~''
      \<and> (case find_slash (drop 1 path) 1 of None \<Rightarrow> length path | Some k \<Rightarrow> k) \<noteq> 1
      \<and> CHR 0x00 \<in> set (take ((case find_slash (drop 1 path) 1 of
                                   None \<Rightarrow> length path | Some k \<Rightarrow> k) - 1) (drop 1 path)))"
  unfolding expanduser_def getpwnam_def Let_def by (auto split: sum.splits)

lemma abspath_raises:
  "(abspath e path = Inl err) =
     (err = FileNotFoundError \<and> \<not> startswith path ''/'' \<and> getcwd e = None)"
  unfolding abspath_def by (auto split: option.splits)

text \<open>
  C9. When the resolution of a path raises inside a predicate, be it in
  \<open>os.path.expanduser\<close> or in \<open>os.path.abspath\<close>, the predicate answers as for an allowed
  path: not protected with an empty reason, and not outside the project. The same holds when
  the project root or the configuration directory cannot be resolved. The predicates return
  plain values, so nothing is raised to the caller.
\<close>

theorem resolution_failure_fails_open:
  "(abspath_expanduser e path = Inl err \<longrightarrow> is_protected_path e path = (False, []))
   \<and> (abspath_expanduser e path = Inl err \<or> abspath e root = Inl err
        \<or> claude_config_dir e = Inl err
        \<or> (\<exists>d. claude_config_dir e = Inr d \<and> abspath e d = Inl err) \<longrightarrow>
      is_path_outside_project e path root = False)"
  unfolding is_protected_path_def is_protected_path_body_def is_path_outside_project_def
    is_path_outside_project_body_def
  by (auto split: sum.splits)

lemma stranded_resolution:
  "abspath_expanduser stranded_env ''notes.txt'' = Inl FileNotFoundError"
  by code_simp

lemma nul_user_resolution: "abspath_expanduser example_env nul_user_path = Inl ValueError"
  by code_simp

theorem resolution_failure_fails_open_witness:
  "abspath_expanduser stranded_env ''notes.txt'' = Inl FileNotFoundError
   \<and> is_protected_path stranded_env ''notes.txt'' = (False, [])
   \<and> is_path_outside_project stranded_env ''notes.txt'' ''/home/user/project'' = False
   \<and> abspath_expanduser example_env nul_user_path = Inl ValueError
   \<and> is_protected_path example_env nul_user_path = (False, [])
   \<and> is_path_outside_project example_env nul_user_path ''/home/user/project'' = False"
  using resolution_failure_fails_open[of stranded_env "''notes.txt''" FileNotFoundError
      "''/home/user/project''"] stranded_resolution
    resolution_failure_fails_open[of example_env nul_user_path ValueError
      "''/home/user/project''"] nul_user_resolution
  by simp

section \<open>The scans of the example commands\<close>

lemma command_rm_root:
  "check_bash_command ''rm -rf /''
     = (True, ''Cannot delete files with absolute paths starting from root'')"
  by code_simp

lemma command_chmod_etc:
  "check_bash_command ''chmod -r 777 /etc'' = (True, ''Cannot chmod system directories'')"
  by code_simp

lemma command_dd:
  "check_bash_command ''dd of=/dev/sda'' = (True, ''Cannot write directly to devices with dd'')"
  by code_simp

lemma command_systemctl:
  "check_bash_command ''systemctl stop sshd'' = (True, ''Cannot stop/disable system services'')"
  by code_simp

lemma command_sudo_rm:
  "check_bash_command ''sudo rm -rf /tmp/x''
     = (True, ''Cannot delete files with absolute paths starting from root'')"
  by code_simp

lemma command_ls: "check_bash_command ''ls -la'' = (False, [])"
  by code_simp

lemma command_cp_report: "check_bash_command ''cp report.pdf /tmp/report.pdf'' = (False, [])"
  by code_simp

lemma command_echo_etc:
  "check_bash_command ''echo hi > /etc/passwd'' = (True, ''Cannot redirect output to /etc/'')"
  by code_simp

lemma writes_echo_etc:
  "write_occurrences ''echo hi > /etc/passwd'' = [(''redirect output'', ''/etc/passwd'')]"
  by code_simp

lemma writes_echo_local:
  "write_occurrences ''echo hi > ./local.txt'' = [(''redirect output'', ''./local.txt'')]"
  by code_simp

lemma writes_dev_null:
  "write_occurrences ''cmd > /dev/null'' = [(''redirect output'', ''/dev/null'')]"
  by code_simp


lemma writes_cp_report: "write_occurrences ''cp report.pdf /tmp/report.pdf'' = []"
  by code_simp





lemma copies_id_rsa:
  "copy_occurrences ''cp /home/user/.ssh/id_rsa ./stolen''
     = [(''/home/user/.ssh/id_rsa'', ''./stolen'')]"
  by code_simp

lemma copies_mv_etc:
  "copy_occurrences ''mv ./a.txt /etc/a.txt'' = [(''./a.txt'', ''/etc/a.txt'')]"
  by code_simp

lemma copies_relative: "copy_occurrences ''cp a.txt b.txt'' = [(''a.txt'', ''b.txt'')]"
  by code_simp

lemma copies_cp_report:
  "copy_occurrences ''cp report.pdf /tmp/report.pdf'' = [(''report.pdf'', ''/tmp/report.pdf'')]"
  by code_simp





section \<open>The dispatcher\<close>

lemma main_project_root_error:
  "main_project_root e inp = Inl err \<Longrightarrow> err = FileNotFoundError"
  unfolding main_project_root_def by (auto split: if_splits option.splits)

text \<open>
  C7. For a Bash request with a command that is not empty, \<open>main\<close> first determines the
  project root, and raises when that raises. Then the verdict is the first denial in the
  order pattern matcher, indirect-write extractor, copy/move extractor: a denial of the
  matcher or of the indirect-write extractor is final whatever the later checks would do,
  and the copy/move extractor is only consulted when both pass. The denial carries the
  reason of the check that produced it. When the copy/move extractor raises, \<open>main\<close> raises.
\<close>

theorem first_denial_is_final:
  assumes "tool_name inp = ''Bash''" and "command inp = Some cmd" and "cmd \<noteq> []"
  shows "main e (Some inp) =
           (case main_project_root e inp of
              Inl err \<Rightarrow> Inl err
            | Inr root \<Rightarrow>
                (case find fst [check_bash_command cmd, check_bash_write_paths e cmd root] of
                   Some (denied, reason) \<Rightarrow>
                     Inr (Deny ([CHR 0xF0, CHR 0x9F, CHR 0x9B, CHR 0xA1, CHR 0xEF, CHR 0xB8,
                                 CHR 0x8F] @ '' BLOCKED: '' @ reason @ [CHR 0x0A]
                                @ ''Command: '' @ cmd))
                 | None \<Rightarrow>
                     (case check_bash_copy_operations e cmd root of
                        Inl err \<Rightarrow> Inl err
                      | Inr (denied, reason) \<Rightarrow>
                          Inr (if denied
                               then Deny ([CHR 0xF0, CHR 0x9F, CHR 0x9B, CHR 0xA1, CHR 0xEF,
                                           CHR 0xB8, CHR 0x8F] @ '' BLOCKED: '' @ reason
                                          @ [CHR 0x0A] @ ''Command: '' @ cmd)
                               else Allow))))"
  using assms
  unfolding main_def main_bash_def get_or_empty_def Let_def with_command_def blocked_def
  by (auto simp: split_beta split: sum.splits)

text \<open>
  C8. A Write or Edit request without a path, a Bash request without a command, and a request
  for any other tool are never denied: \<open>main\<close> allows them as soon as it has a project root,
  and its only other outcome is the exception of \<open>os.getcwd()\<close> when no project root is
  given and the working directory is gone.
\<close>

theorem nothing_to_check_is_allowed:
  assumes "((tool_name inp = ''Write'' \<or> tool_name inp = ''Edit'')
              \<and> (file_path inp = None \<or> file_path inp = Some []))
           \<or> (tool_name inp = ''Bash'' \<and> (command inp = None \<or> command inp = Some []))
           \<or> (tool_name inp \<noteq> ''Write'' \<and> tool_name inp \<noteq> ''Edit''
                \<and> tool_name inp \<noteq> ''Bash'')"
  shows "(\<forall>root. main_project_root e inp = Inr root \<longrightarrow> main e (Some inp) = Inr Allow)
         \<and> (\<forall>reason. main e (Some inp) \<noteq> Inr (Deny reason))
         \<and> (main e (Some inp) = Inr Allow \<or> main_project_root e inp = Inl FileNotFoundError)"
proof -
  have a: "main e (Some inp) =
             (case main_project_root e inp of Inl err \<Rightarrow> Inl err | Inr root \<Rightarrow> Inr Allow)"
    using assms
    unfolding main_def main_write_edit_def main_bash_def get_or_empty_def Let_def
    by (auto split: sum.splits)
  show ?thesis
  proof (cases "main_project_root e inp")
    case (Inl err)
    then show ?thesis using a main_project_root_error[OF Inl] by simp
  next
    case (Inr root)
    then show ?thesis using a by simp
  qed
qed

lemma normpath_etc_passwd: "normpath ''/etc/passwd'' = ''/etc/passwd''"
  by code_simp

lemma protected_etc_passwd:
  "is_protected_path e ''/etc/passwd''
     = (True, ''Cannot modify files in protected directory: /etc'')"
proof -
  have "abspath_expanduser e ''/etc/passwd'' = Inr ''/etc/passwd''"
    by (simp add: abspath_expanduser_absolute startswith_def normpath_etc_passwd)
  then show ?thesis
    by (simp add: is_protected_path_resolved root_of_etc_passwd)
qed

lemma write_paths_echo_etc:
  "check_bash_write_paths e ''echo hi > /etc/passwd'' root
     = (True, ''Cannot redirect output to protected path: /etc/passwd'')"
  by (simp add: check_bash_write_paths_occurrences writes_echo_etc check_write_target_def
      startswith_def protected_etc_passwd)

lemma example_project_root:
  "main_project_root example_env (bash_request c) = Inr ''/home/user/project''"
  by (simp add: main_project_root_def example_env_def get_or_empty_def bash_request_def)

lemma stranded_project_root:
  "main_project_root stranded_env (bash_request c) = Inl FileNotFoundError"
  by (simp add: main_project_root_def stranded_env_def example_env_def get_or_empty_def
      bash_request_def)

theorem first_denial_is_final_witness:
  "fst (check_bash_command ''echo hi > /etc/passwd'')
   \<and> fst (check_bash_write_paths example_env ''echo hi > /etc/passwd'' ''/home/user/project'')
   \<and> snd (check_bash_command ''echo hi > /etc/passwd'')
       \<noteq> snd (check_bash_write_paths example_env ''echo hi > /etc/passwd''
                ''/home/user/project'')
   \<and> main example_env (Some (bash_request ''echo hi > /etc/passwd''))
       = Inr (Deny ([CHR 0xF0, CHR 0x9F, CHR 0x9B, CHR 0xA1, CHR 0xEF, CHR 0xB8, CHR 0x8F]
                    @ '' BLOCKED: Cannot redirect output to /etc/'' @ [CHR 0x0A]
                    @ ''Command: echo hi > /etc/passwd''))"
  using first_denial_is_final[of "bash_request ''echo hi > /etc/passwd''"
      "''echo hi > /etc/passwd''" example_env]
    example_project_root[of "''echo hi > /etc/passwd''"] command_echo_etc
    write_paths_echo_etc[of example_env "''/home/user/project''"]
  by (simp add: bash_request_def)

text \<open>
  The claim as it stands fails when the project root cannot be determined: the pattern
  matcher calls \<open>rm -rf /\<close> dangerous, and \<open>main\<close> raises before it runs a check.
\<close>

theorem stranded_command_not_denied:
  "fst (check_bash_command ''rm -rf /'')
   \<and> main stranded_env (Some (bash_request ''rm -rf /'')) = Inl FileNotFoundError"
  using command_rm_root stranded_project_root[of "''rm -rf /''"]
  by (simp add: main_def)

theorem nothing_to_check_is_allowed_witness:
  "main example_env (Some \<lparr>tool_name = ''Write'', file_path = None, command = None,
                            cwd = None\<rparr>) = Inr Allow
   \<and> main example_env (Some \<lparr>tool_name = ''Edit'', file_path = Some [], command = None,
                              cwd = None\<rparr>) = Inr Allow
   \<and> main example_env (Some \<lparr>tool_name = ''Bash'', file_path = None, command = Some [],
                              cwd = None\<rparr>) = Inr Allow
   \<and> main example_env (Some \<lparr>tool_name = ''Read'', file_path = Some ''/etc/passwd'',
                              command = None, cwd = None\<rparr>) = Inr Allow"
proof -
  have r: "\<And>inp. main_project_root example_env inp \<noteq> Inl FileNotFoundError"
    by (simp add: main_project_root_def example_env_def get_or_empty_def)
  show ?thesis
    using nothing_to_check_is_allowed[of
        "\<lparr>tool_name = ''Write'', file_path = None, command = None, cwd = None\<rparr>" example_env]
      nothing_to_check_is_allowed[of
        "\<lparr>tool_name = ''Edit'', file_path = Some [], command = None, cwd = None\<rparr>"
        example_env]
      nothing_to_check_is_allowed[of
        "\<lparr>tool_name = ''Bash'', file_path = None, command = Some [], cwd = None\<rparr>"
        example_env]
      nothing_to_check_is_allowed[of
        "\<lparr>tool_name = ''Read'', file_path = Some ''/etc/passwd'', command = None,
          cwd = None\<rparr>" example_env]
      r
    by simp
qed

text \<open>
  C6. The indirect-write extractor blocks a redirect into \<open>/etc\<close>, and lets a redirect to a
  relative target and one to \<open>/dev/null\<close> pass, in every environment and for every project
  root.
\<close>

theorem write_paths_examples:
  "check_bash_write_paths e ''echo hi > /etc/passwd'' root
     = (True, ''Cannot redirect output to protected path: /etc/passwd'')
   \<and> check_bash_write_paths e ''echo hi > ./local.txt'' root = (False, [])
   \<and> check_bash_write_paths e ''cmd > /dev/null'' root = (False, [])"
proof -
  have "check_bash_write_paths e ''echo hi > ./local.txt'' root = (False, [])"
    by (simp add: check_bash_write_paths_occurrences writes_echo_local check_write_target_def
        startswith_def)
  moreover have "check_bash_write_paths e ''cmd > /dev/null'' root = (False, [])"
    by (simp add: check_bash_write_paths_occurrences writes_dev_null check_write_target_def
        startswith_def)
  ultimately show ?thesis
    using write_paths_echo_etc[of e root] by simp
qed

text \<open>
  C2. Each representative command of the categories, in any mix of upper and lower case, is
  dangerous with a reason that is not empty, and \<open>ls -la\<close> is not dangerous.
\<close>

theorem representative_commands:
  "(map lower cmd \<in> {''rm -rf /'', ''chmod -r 777 /etc'', ''dd of=/dev/sda'',
                      ''systemctl stop sshd'', ''sudo rm -rf /tmp/x''}
      \<longrightarrow> fst (check_bash_command cmd) \<and> snd (check_bash_command cmd) \<noteq> [])
   \<and> (map lower cmd = ''ls -la'' \<longrightarrow> check_bash_command cmd = (False, []))"
proof -
  have "check_bash_command cmd = check_bash_command (map lower cmd)"
    by (simp add: check_bash_command_lower)
  then show ?thesis
    using command_rm_root command_chmod_etc command_dd command_systemctl command_sudo_rm
      command_ls
    by auto
qed

lemma lower_chmod: "map lower ''chmod -R 777 /etc'' = ''chmod -r 777 /etc''"
  by code_simp

lemma lower_rm: "map lower ''RM -rf /'' = ''rm -rf /''"
  by code_simp

lemma lower_ls: "map lower ''LS -la'' = ''ls -la''"
  by code_simp

theorem representative_commands_witness:
  "fst (check_bash_command ''chmod -R 777 /etc'')
   \<and> snd (check_bash_command ''chmod -R 777 /etc'') \<noteq> []
   \<and> fst (check_bash_command ''RM -rf /'')
   \<and> check_bash_command ''LS -la'' = (False, [])"
  using representative_commands[of "''chmod -R 777 /etc''"]
    representative_commands[of "''RM -rf /''"] representative_commands[of "''LS -la''"]
    lower_chmod lower_rm lower_ls
  by simp

section \<open>The indirect-write extractor\<close>




lemma is_protected_path_absolute:
  assumes "startswith p ''/''" and "normpath p = q"
  shows "is_protected_path e p =
           (case find (\<lambda>r. nested_under r q) PROTECTED_DIRECTORIES of
              Some r \<Rightarrow> (True, ''Cannot modify files in protected directory: '' @ r)
            | None \<Rightarrow> (False, []))"
  using assms by (simp add: is_protected_path_resolved abspath_expanduser_absolute)







section \<open>The copy/move extractor\<close>

lemma normpath_etc_a: "normpath ''/etc/a.txt'' = ''/etc/a.txt''"
  by code_simp

lemma root_of_etc_a:
  "find (\<lambda>r. nested_under r ''/etc/a.txt'') PROTECTED_DIRECTORIES = Some ''/etc''"
  by code_simp

lemma protected_etc_a:
  "is_protected_path e ''/etc/a.txt''
     = (True, ''Cannot modify files in protected directory: /etc'')"
  by (simp add: is_protected_path_absolute[OF _ normpath_etc_a] startswith_def root_of_etc_a)

lemma copy_id_rsa:
  assumes "is_path_outside_project e ''/home/user/.ssh/id_rsa'' root"
  shows "check_bash_copy_operations e ''cp /home/user/.ssh/id_rsa ./stolen'' root
           = Inr (True, ''Cannot copy/move from '' @ [CHR 0x27] @ ''/home/user/.ssh/id_rsa''
                        @ [CHR 0x27] @ '' - source is outside project directory'')"
proof -
  have a: "expanduser e ''/home/user/.ssh/id_rsa'' = Inr ''/home/user/.ssh/id_rsa''"
    by (simp add: expanduser_absolute startswith_def)
  have b: "expanduser e ''./stolen'' = Inr ''./stolen''"
    by (simp add: expanduser_no_tilde startswith_def)
  show ?thesis
    using assms
    by (simp add: check_bash_copy_operations_occurrences copies_id_rsa check_copy_match_def
        a b startswith_def apostrophe_def)
qed

lemma copy_mv_etc:
  "check_bash_copy_operations e ''mv ./a.txt /etc/a.txt'' root
     = Inr (True, ''Cannot copy/move to protected path: /etc/a.txt'')"
proof -
  have a: "expanduser e ''./a.txt'' = Inr ''./a.txt''"
    by (simp add: expanduser_no_tilde startswith_def)
  have b: "expanduser e ''/etc/a.txt'' = Inr ''/etc/a.txt''"
    by (simp add: expanduser_absolute startswith_def)
  show ?thesis
    by (simp add: check_bash_copy_operations_occurrences copies_mv_etc check_copy_match_def
        a b startswith_def protected_etc_a)
qed

lemma copy_relative:
  "check_bash_copy_operations e ''cp a.txt b.txt'' root = Inr (False, [])"
proof -
  have a: "expanduser e ''a.txt'' = Inr ''a.txt''"
    by (simp add: expanduser_no_tilde startswith_def)
  have b: "expanduser e ''b.txt'' = Inr ''b.txt''"
    by (simp add: expanduser_no_tilde startswith_def)
  show ?thesis
    by (simp add: check_bash_copy_operations_occurrences copies_relative check_copy_match_def
        a b startswith_def)
qed

lemma write_paths_cp_report:
  "check_bash_write_paths e ''cp report.pdf /tmp/report.pdf'' root = (False, [])"
  by (simp add: check_bash_write_paths_occurrences writes_cp_report)

lemma copy_cp_report:
  "check_bash_copy_operations e ''cp report.pdf /tmp/report.pdf'' root = Inr (False, [])"
proof -
  have a: "expanduser e ''report.pdf'' = Inr ''report.pdf''"
    by (simp add: expanduser_no_tilde startswith_def)
  have b: "expanduser e ''/tmp/report.pdf'' = Inr ''/tmp/report.pdf''"
    by (simp add: expanduser_absolute startswith_def)
  show ?thesis
    by (simp add: check_bash_copy_operations_occurrences copies_cp_report check_copy_match_def
        a b startswith_def)
qed

lemma main_cp_report:
  assumes "tool_name inp = ''Bash''" and "command inp = Some ''cp report.pdf /tmp/report.pdf''"
  shows "main e (Some inp) =
           (case main_project_root e inp of Inl err \<Rightarrow> Inl err | Inr root \<Rightarrow> Inr Allow)"
  using assms
  unfolding main_def main_bash_def get_or_empty_def Let_def
  by (simp add: command_cp_report write_paths_cp_report copy_cp_report split: sum.splits)

text \<open>
  C5. The copy/move extractor blocks \<open>cp /home/user/.ssh/id_rsa ./stolen\<close> whenever the
  Project-Boundary Checker finds the source outside the project, with a reason that cites the
  source; it blocks \<open>mv ./a.txt /etc/a.txt\<close> for its protected destination; it does not block
  \<open>cp a.txt b.txt\<close>. A Bash request for \<open>cp report.pdf /tmp/report.pdf\<close> is never denied:
  \<open>main\<close> allows it as soon as it has a project root.
\<close>

theorem copy_move_examples:
  "(is_path_outside_project e ''/home/user/.ssh/id_rsa'' root \<longrightarrow>
      check_bash_copy_operations e ''cp /home/user/.ssh/id_rsa ./stolen'' root
        = Inr (True, ''Cannot copy/move from '' @ [CHR 0x27] @ ''/home/user/.ssh/id_rsa''
                     @ [CHR 0x27] @ '' - source is outside project directory''))
   \<and> check_bash_copy_operations e ''mv ./a.txt /etc/a.txt'' root
       = Inr (True, ''Cannot copy/move to protected path: /etc/a.txt'')
   \<and> check_bash_copy_operations e ''cp a.txt b.txt'' root = Inr (False, [])
   \<and> (tool_name inp = ''Bash'' \<and> command inp = Some ''cp report.pdf /tmp/report.pdf'' \<longrightarrow>
        (\<forall>r. main_project_root e inp = Inr r \<longrightarrow> main e (Some inp) = Inr Allow)
        \<and> (\<forall>reason. main e (Some inp) \<noteq> Inr (Deny reason))
        \<and> (main e (Some inp) = Inr Allow \<or> main_project_root e inp = Inl FileNotFoundError))"
proof -
  have e2e: "tool_name inp = ''Bash'' \<and> command inp = Some ''cp report.pdf /tmp/report.pdf'' \<longrightarrow>
        (\<forall>r. main_project_root e inp = Inr r \<longrightarrow> main e (Some inp) = Inr Allow)
        \<and> (\<forall>reason. main e (Some inp) \<noteq> Inr (Deny reason))
        \<and> (main e (Some inp) = Inr Allow \<or> main_project_root e inp = Inl FileNotFoundError)"
  proof
    assume a: "tool_name inp = ''Bash'' \<and> command inp = Some ''cp report.pdf /tmp/report.pdf''"
    then have m: "main e (Some inp) =
        (case main_project_root e inp of Inl err \<Rightarrow> Inl err | Inr root \<Rightarrow> Inr Allow)"
      by (simp add: main_cp_report)
    show "(\<forall>r. main_project_root e inp = Inr r \<longrightarrow> main e (Some inp) = Inr Allow)
        \<and> (\<forall>reason. main e (Some inp) \<noteq> Inr (Deny reason))
        \<and> (main e (Some inp) = Inr Allow \<or> main_project_root e inp = Inl FileNotFoundError)"
    proof (cases "main_project_root e inp")
      case (Inl err)
      then show ?thesis using m main_project_root_error[OF Inl] by simp
    next
      case (Inr r)
      then show ?thesis using m by simp
    qed
  qed
  show ?thesis
    using copy_id_rsa[of e root] copy_mv_etc[of e root] copy_relative[of e root] e2e
    by blast
qed

lemma outside_id_rsa:
  "is_path_outside_project example_env ''/home/user/.ssh/id_rsa'' ''/home/user/project''"
  by code_simp

theorem copy_move_examples_witness:
  "is_path_outside_project example_env ''/home/user/.ssh/id_rsa'' ''/home/user/project''
   \<and> check_bash_copy_operations example_env ''cp /home/user/.ssh/id_rsa ./stolen''
         ''/home/user/project''
       = Inr (True, ''Cannot copy/move from '' @ [CHR 0x27] @ ''/home/user/.ssh/id_rsa''
                    @ [CHR 0x27] @ '' - source is outside project directory'')
   \<and> main example_env (Some (bash_request ''cp report.pdf /tmp/report.pdf'')) = Inr Allow"
  using copy_move_examples[of example_env "''/home/user/project''"
      "bash_request ''cp report.pdf /tmp/report.pdf''"]
    outside_id_rsa example_project_root[of "''cp report.pdf /tmp/report.pdf''"]
  by (simp add: bash_request_def)

section \<open>The carve-outs of the boundary check\<close>





















section \<open>A project at the root directory\<close>

lemma resolve_notes:
  "abspath_expanduser example_env ''/home/user/notes.txt'' = Inr ''/home/user/notes.txt''"
  by code_simp

lemma resolve_root_directory: "abspath example_env ''/'' = Inr ''/''"
  by code_simp

lemma notes_below_root_directory:
  "prefix (components ''/'') (components ''/home/user/notes.txt'')
   \<and> components ''/home/user/notes.txt'' \<noteq> components ''/''"
  by code_simp

lemma notes_judged_outside:
  "is_path_outside_project example_env ''/home/user/notes.txt'' ''/'' = True"
  by code_simp

text \<open>
  C3. With the root directory \<open>/\<close> as project root, the file \<open>/home/user/notes.txt\<close> lies
  strictly under the project root by whole segments, in no carve-out, and the checker
  answers that it is outside the project: the test for nesting appends a separator to the
  resolved root, which for \<open>/\<close> gives \<open>//\<close>.
\<close>

theorem root_directory_project_judged_outside:
  "abspath_expanduser example_env ''/home/user/notes.txt'' = Inr ''/home/user/notes.txt''
   \<and> abspath example_env ''/'' = Inr ''/''
   \<and> prefix (components ''/'') (components ''/home/user/notes.txt'')
   \<and> components ''/home/user/notes.txt'' \<noteq> components ''/''
   \<and> is_path_outside_project example_env ''/home/user/notes.txt'' ''/'' = True"
  using resolve_notes resolve_root_directory notes_below_root_directory notes_judged_outside
  by simp

section \<open>An exception in the copy/move extractor\<close>

text \<open>
  A copy whose source is a home-directory shorthand with a NUL character in the user name:
  no dangerous pattern and no write pattern matches, the copy/move extractor raises in
  \<open>os.path.expanduser\<close>, and so does \<open>main\<close>, although the destination is protected.
\<close>

lemma copy_raise_leaves_main:
  "check_bash_copy_operations example_env (''cp '' @ nul_user_path @ '' /etc/x'')
     ''/home/user/project'' = Inl ValueError
   \<and> main example_env (Some (bash_request (''cp '' @ nul_user_path @ '' /etc/x'')))
     = Inl ValueError"
  by code_simp

end
